theory Spec2Isabelle
  imports Complex_Main "HOL-Library.AList"
begin

section \<open>Python strings\<close>

text \<open>
  A Python \<open>str\<close> is a sequence of Unicode code points; the model keeps the code points as
  integers. \<open>asc\<close> turns an ASCII literal into such a sequence; a character outside ASCII is
  written by its code point (for instance 8364 for the euro sign, 322 for the Polish l with
  stroke, 178 for the superscript two).

  The character classes follow Python's \<open>str.isspace\<close> (the same set as \<open>\s\<close> of the
  \<open>re\<close> module, complete), \<open>\d\<close> and \<open>\w\<close>. The model reads \<open>\d\<close> on the ASCII digits,
  \<open>\w\<close> on ASCII, Latin-1, Latin Extended-A/B and the CJK ideographs, and case on ASCII,
  Latin-1 and the regular pairs of Latin Extended-A; every other code point counts as a
  caseless symbol.
\<close>

type_synonym pystr = "int list"

definition asc :: "string \<Rightarrow> pystr" where
  "asc s = map of_char s"

definition is_space :: "int \<Rightarrow> bool" where
  "is_space c \<longleftrightarrow>
     (9 \<le> c \<and> c \<le> 13) \<or> (28 \<le> c \<and> c \<le> 32) \<or> c = 133 \<or> c = 160 \<or> c = 5760 \<or>
     (8192 \<le> c \<and> c \<le> 8202) \<or> c = 8232 \<or> c = 8233 \<or> c = 8239 \<or> c = 8287 \<or> c = 12288"

definition is_digit :: "int \<Rightarrow> bool" where
  "is_digit c \<longleftrightarrow> 48 \<le> c \<and> c \<le> 57"

definition is_upper_ascii :: "int \<Rightarrow> bool" where
  "is_upper_ascii c \<longleftrightarrow> 65 \<le> c \<and> c \<le> 90"

definition is_lower_ascii :: "int \<Rightarrow> bool" where
  "is_lower_ascii c \<longleftrightarrow> 97 \<le> c \<and> c \<le> 122"

definition is_word :: "int \<Rightarrow> bool" where
  "is_word c \<longleftrightarrow>
     is_digit c \<or> is_upper_ascii c \<or> is_lower_ascii c \<or> c = 95 \<or>
     c = 170 \<or> c = 178 \<or> c = 179 \<or> c = 181 \<or> c = 185 \<or> c = 186 \<or>
     (188 \<le> c \<and> c \<le> 190) \<or>
     (192 \<le> c \<and> c \<le> 591 \<and> c \<noteq> 215 \<and> c \<noteq> 247) \<or>
     (19968 \<le> c \<and> c \<le> 40959)"

definition lower_char :: "int \<Rightarrow> int" where
  "lower_char c =
     (if is_upper_ascii c then c + 32
      else if 192 \<le> c \<and> c \<le> 222 \<and> c \<noteq> 215 then c + 32
      else if ((256 \<le> c \<and> c \<le> 303) \<or> (306 \<le> c \<and> c \<le> 311) \<or> (330 \<le> c \<and> c \<le> 375))
              \<and> c mod 2 = 0 then c + 1
      else if ((313 \<le> c \<and> c \<le> 328) \<or> (377 \<le> c \<and> c \<le> 382)) \<and> c mod 2 = 1 then c + 1
      else if c = 376 then 255
      else c)"

definition upper_char :: "int \<Rightarrow> int" where
  "upper_char c = (if is_lower_ascii c then c - 32 else c)"

definition py_lower :: "pystr \<Rightarrow> pystr" where
  "py_lower s = map lower_char s"

definition py_upper :: "pystr \<Rightarrow> pystr" where
  "py_upper s = map upper_char s"

definition py_strip :: "pystr \<Rightarrow> pystr" where
  "py_strip s = rev (dropWhile is_space (rev (dropWhile is_space s)))"

definition py_startswith :: "pystr \<Rightarrow> pystr \<Rightarrow> bool" where
  "py_startswith s p \<longleftrightarrow> take (length p) s = p"

fun py_contains :: "pystr \<Rightarrow> pystr \<Rightarrow> bool" where
  "py_contains sub [] = (sub = [])"
| "py_contains sub (c # s) = (py_startswith (c # s) sub \<or> py_contains sub s)"

definition py_replace :: "int \<Rightarrow> pystr \<Rightarrow> pystr \<Rightarrow> pystr" where
  "py_replace old new s = concat (map (\<lambda>c. if c = old then new else [c]) s)"

fun py_split :: "int \<Rightarrow> pystr \<Rightarrow> pystr list" where
  "py_split sep [] = [[]]"
| "py_split sep (c # s) =
     (if c = sep then [] # py_split sep s
      else (case py_split sep s of p # ps \<Rightarrow> (c # p) # ps | [] \<Rightarrow> [[c]]))"

fun py_rfind_from :: "int \<Rightarrow> int \<Rightarrow> pystr \<Rightarrow> int \<Rightarrow> int" where
  "py_rfind_from c i [] found = found"
| "py_rfind_from c i (x # s) found = py_rfind_from c (i + 1) s (if x = c then i else found)"

definition py_rfind :: "int \<Rightarrow> pystr \<Rightarrow> int" where
  "py_rfind c s = py_rfind_from c 0 s (- 1)"

section \<open>NumberUnitParser: numeric strings\<close>

datatype py_error = ValueError | IndexError | TypeError | IOError pystr

definition digits_value :: "pystr \<Rightarrow> int" where
  "digits_value ds = foldl (\<lambda>n d. 10 * n + (d - 48)) 0 ds"

definition decimal_value :: "pystr \<Rightarrow> pystr \<Rightarrow> rat" where
  "decimal_value ip fp = of_int (digits_value ip) + of_int (digits_value fp) / 10 ^ length fp"

text \<open>
  \<open>float(num_str)\<close> as the parser calls it: on a string of digits and dots. Such a
  string is a float literal when it has at least one digit and at most one dot. The model
  returns the decimal number the literal denotes, where Python returns the nearest double.
\<close>

definition py_float :: "pystr \<Rightarrow> py_error + rat" where
  "py_float s =
     (let ip = takeWhile is_digit s; r = dropWhile is_digit s in
      case r of
        [] \<Rightarrow> if ip = [] then Inl ValueError else Inr (decimal_value ip [])
      | c # fp \<Rightarrow>
          if c = 46 \<and> list_all is_digit fp \<and> (ip \<noteq> [] \<or> fp \<noteq> [])
          then Inr (decimal_value ip fp)
          else Inl ValueError)"

text \<open>\<open>parentheses_negative = re.compile(r'^\s*\(([^)]+)\)\s*$')\<close>, \<open>match\<close>, group 1.\<close>

definition parentheses_negative :: "pystr \<Rightarrow> pystr option" where
  "parentheses_negative s =
     (case dropWhile is_space s of
        [] \<Rightarrow> None
      | c # r \<Rightarrow>
          if c \<noteq> 40 then None
          else (let inner = takeWhile (\<lambda>x. x \<noteq> 41) r; rest = dropWhile (\<lambda>x. x \<noteq> 41) r in
                if inner = [] then None
                else (case rest of
                        [] \<Rightarrow> None
                      | _ # t \<Rightarrow> if list_all is_space t then Some inner else None)))"

text \<open>The character class \<open>[\d.,']\<close> of \<open>re.findall\<close>.\<close>

definition numeric_char :: "int \<Rightarrow> bool" where
  "numeric_char c \<longleftrightarrow> is_digit c \<or> c = 46 \<or> c = 44 \<or> c = 39"

text \<open>
  The body of the \<open>try\<close> block up to the call of \<open>float\<close>: the locale decision on the
  string of numeric characters, apostrophes already removed.
\<close>

definition resolve_separators :: "pystr \<Rightarrow> pystr" where
  "resolve_separators num_str =
     (let has_comma = (44 \<in> set num_str); has_dot = (46 \<in> set num_str) in
      if has_comma \<and> has_dot then
        (if py_rfind 44 num_str > py_rfind 46 num_str
         then py_replace 44 [46] (py_replace 46 [] num_str)
         else py_replace 44 [] num_str)
      else if has_comma \<and> \<not> has_dot then
        (let parts = py_split 44 num_str in
         if length parts = 2 \<and> length (parts ! 1) = 3 then py_replace 44 [] num_str
         else if length parts = 2 \<and> length (parts ! 1) \<le> 2 then py_replace 44 [46] num_str
         else py_replace 44 [] num_str)
      else if has_dot \<and> \<not> has_comma then
        (let parts = py_split 46 num_str in
         if length parts = 2 \<and> length (parts ! 1) = 3 then py_replace 46 [] num_str
         else num_str)
      else num_str)"

definition strip_sign :: "pystr \<Rightarrow> bool \<times> pystr" where
  "strip_sign cleaned =
     (case parentheses_negative cleaned of
        Some inner \<Rightarrow> (True, inner)
      | None \<Rightarrow>
          if py_startswith cleaned [45] then (True, drop 1 cleaned)
          else if py_startswith cleaned [8722] then (True, drop 1 cleaned)
          else (False, cleaned))"

definition parse_numeric_string :: "pystr \<Rightarrow> rat option" where
  "parse_numeric_string txt =
     (if txt = [] then None
      else
        (let (is_negative, cleaned) = strip_sign (py_strip txt);
             numeric_chars = filter numeric_char cleaned
         in if numeric_chars = [] then None
            else
              (let num_str = (if 39 \<in> set numeric_chars then py_replace 39 [] numeric_chars
                              else numeric_chars)
               in case py_float (resolve_separators num_str) of
                    Inl e \<Rightarrow> None
                  | Inr result \<Rightarrow> Some (if is_negative then - \<bar>result\<bar> else result))))"

section \<open>NumberUnitParser: regular expressions\<close>

text \<open>
  The compiled patterns of \<open>NumberUnitParser.__init__\<close> are modelled as matchers: a matcher
  gets the character before the position (for \<open>\b\<close>) and the text from the position on,
  and returns the length of the match that starts there. \<open>re_search\<close> is \<open>pattern.search\<close>
  (the leftmost match, its text), \<open>re_sub\<close> is \<open>pattern.sub('', s)\<close> (every match
  deleted, left to right, without overlap). No pattern of the program matches the empty
  string.
\<close>

type_synonym matcher = "int option \<Rightarrow> pystr \<Rightarrow> nat option"

fun re_search_from :: "matcher \<Rightarrow> int option \<Rightarrow> pystr \<Rightarrow> pystr option" where
  "re_search_from m prev [] = None"
| "re_search_from m prev (c # s) =
     (case m prev (c # s) of
        Some n \<Rightarrow> Some (take n (c # s))
      | None \<Rightarrow> re_search_from m (Some c) s)"

definition re_search :: "matcher \<Rightarrow> pystr \<Rightarrow> pystr option" where
  "re_search m s = re_search_from m None s"

fun re_sub_from :: "matcher \<Rightarrow> nat \<Rightarrow> int option \<Rightarrow> pystr \<Rightarrow> pystr" where
  "re_sub_from m k prev [] = []"
| "re_sub_from m k prev (c # s) =
     (if k > 0 then re_sub_from m (k - 1) (Some c) s
      else (case m prev (c # s) of
              Some n \<Rightarrow> re_sub_from m (n - 1) (Some c) s
            | None \<Rightarrow> c # re_sub_from m 0 (Some c) s))"

definition re_sub :: "matcher \<Rightarrow> pystr \<Rightarrow> pystr" where
  "re_sub m s = re_sub_from m 0 None s"

definition word_at :: "int option \<Rightarrow> bool" where
  "word_at c = (case c of None \<Rightarrow> False | Some x \<Rightarrow> is_word x)"

definition word_boundary :: "int option \<Rightarrow> int option \<Rightarrow> bool" where
  "word_boundary p n \<longleftrightarrow> word_at p \<noteq> word_at n"

definition char_at :: "pystr \<Rightarrow> nat \<Rightarrow> int option" where
  "char_at s i = (if i < length s then Some (s ! i) else None)"

definition lit_match :: "bool \<Rightarrow> pystr \<Rightarrow> pystr \<Rightarrow> bool" where
  "lit_match ignorecase lit s \<longleftrightarrow>
     length lit \<le> length s \<and>
     (if ignorecase then py_lower (take (length lit) s) = py_lower lit
      else take (length lit) s = lit)"

text \<open>The pattern \<open>\b lit \b\<close> for a literal of word characters.\<close>

definition bounded_word :: "bool \<Rightarrow> pystr \<Rightarrow> matcher" where
  "bounded_word ignorecase lit prev s =
     (if lit_match ignorecase lit s
         \<and> word_boundary prev (char_at s 0)
         \<and> word_boundary (char_at s (length lit - 1)) (char_at s (length lit))
      then Some (length lit) else None)"

definition lit_pattern :: "bool \<Rightarrow> pystr \<Rightarrow> matcher" where
  "lit_pattern ignorecase lit prev s = (if lit_match ignorecase lit s then Some (length lit) else None)"

fun alternatives :: "matcher list \<Rightarrow> matcher" where
  "alternatives [] prev s = None"
| "alternatives (m # ms) prev s =
     (case m prev s of Some n \<Rightarrow> Some n | None \<Rightarrow> alternatives ms prev s)"

text \<open>\<open>currency_symbol_pattern\<close>: a character class of six one-character symbols, by
  code point: euro 8364, dollar 36, pound 163, yen 165, rupee 8377, yuan 20803.\<close>

definition currency_symbol_chars :: "int list" where
  "currency_symbol_chars = [8364, 36, 163, 165, 8377, 20803]"

definition currency_symbol_pattern :: matcher where
  "currency_symbol_pattern prev s =
     (case s of [] \<Rightarrow> None | c # _ \<Rightarrow> if c \<in> set currency_symbol_chars then Some 1 else None)"

text \<open>\<open>currency_code_pattern = re.compile(r'\b(EUR|USD|...|NZD)\b', re.IGNORECASE)\<close>.\<close>

definition currency_codes :: "pystr list" where
  "currency_codes = map asc
     [''EUR'', ''USD'', ''GBP'', ''CHF'', ''PLN'', ''SEK'', ''DKK'', ''NOK'',
      ''CZK'', ''HUF'', ''CAD'', ''AUD'', ''INR'', ''JPY'', ''CNY'', ''NZD'']"

definition currency_code_pattern :: matcher where
  "currency_code_pattern = alternatives (map (bounded_word True) currency_codes)"

text \<open>\<open>percent_pattern = re.compile(r'(\d+(?:[.,]\d+)?)\s*%')\<close>. The result is group 1.
  Each repetition takes its longest run: a shorter run of digits or of spaces leaves a digit
  or a space in front of what must follow, where the pattern cannot go on.\<close>

definition percent_tail :: "pystr \<Rightarrow> pystr \<Rightarrow> pystr option" where
  "percent_tail r grp =
     (case dropWhile is_space r of
        [] \<Rightarrow> None
      | c # _ \<Rightarrow> if c = 37 then Some grp else None)"

definition percent_match_at :: "pystr \<Rightarrow> pystr option" where
  "percent_match_at s =
     (let a = takeWhile is_digit s; r = dropWhile is_digit s in
      if a = [] then None
      else (case r of
              [] \<Rightarrow> None
            | c # r' \<Rightarrow>
                if (c = 46 \<or> c = 44) \<and> takeWhile is_digit r' \<noteq> [] then
                  (case percent_tail (dropWhile is_digit r') (a @ c # takeWhile is_digit r') of
                     Some g \<Rightarrow> Some g
                   | None \<Rightarrow> percent_tail r a)
                else percent_tail r a))"

fun percent_search :: "pystr \<Rightarrow> pystr option" where
  "percent_search [] = None"
| "percent_search (c # s) =
     (case percent_match_at (c # s) of Some g \<Rightarrow> Some g | None \<Rightarrow> percent_search s)"

text \<open>\<open>area_pattern\<close>: the alternatives \<open>m^2 | m2 | sqm | qm | sqft | sf | ft^2 | ft2 |
  square\s*(?:feet|metres?|meters?)\<close> in this order, with \<open>re.IGNORECASE\<close>; the superscript
  two (written \<open>^2\<close> here) is the code point 178.\<close>

definition square_words :: matcher where
  "square_words prev s =
     (if lit_match True (asc ''square'') s then
        (let r = drop 6 s; ws = length (takeWhile is_space r); r' = dropWhile is_space r;
             plural = (if lit_match True (asc ''s'') (drop 5 r') then 1 else 0)
         in if lit_match True (asc ''feet'') r' then Some (6 + ws + 4)
            else if lit_match True (asc ''metre'') r' then Some (6 + ws + 5 + plural)
            else if lit_match True (asc ''meter'') r' then Some (6 + ws + 5 + plural)
            else None)
      else None)"

definition area_pattern :: matcher where
  "area_pattern =
     alternatives
       (map (lit_pattern True)
          [asc ''m'' @ [178], asc ''m2'', asc ''sqm'', asc ''qm'', asc ''sqft'', asc ''sf'',
           asc ''ft'' @ [178], asc ''ft2'']
        @ [square_words])"

section \<open>NumberUnitParser: tables\<close>

text \<open>\<open>CURRENCY_SYMBOLS\<close>: euro, dollar, pound, zloty (\<open>z\<close> and the l with stroke, 322),
  \<open>kr\<close>, rupee, yen, yuan.\<close>

definition CURRENCY_SYMBOLS :: "(pystr \<times> pystr) list" where
  "CURRENCY_SYMBOLS =
     [([8364], asc ''EUR''), ([36], asc ''USD''), ([163], asc ''GBP''),
      (asc ''z'' @ [322], asc ''PLN''), (asc ''kr'', asc ''SEK''), ([8377], asc ''INR''),
      ([165], asc ''JPY''), ([20803], asc ''CNY'')]"

definition sq_metre :: pystr where
  "sq_metre = asc ''m'' @ [178]"

definition AREA_UNITS :: "(pystr \<times> pystr) list" where
  "AREA_UNITS =
     [(asc ''m'' @ [178], sq_metre), (asc ''m2'', sq_metre), (asc ''sqm'', sq_metre), (asc ''qm'', sq_metre),
      (asc ''sqft'', asc ''sqft''), (asc ''sf'', asc ''sqft''), (asc ''ft'' @ [178], asc ''sqft''),
      (asc ''ft2'', asc ''sqft''), (asc ''square feet'', asc ''sqft''),
      (asc ''square metres'', sq_metre), (asc ''square meters'', sq_metre)]"

definition APPROX_PREFIXES :: "pystr list" where
  "APPROX_PREFIXES =
     [asc ''approx.'', asc ''ca.'', asc ''~'', asc ''circa'', asc ''ungef'' @ [228] @ asc ''hr'',
      asc ''environ'', asc ''about'', asc ''roughly'']"

definition OPERATORS :: "pystr list" where
  "OPERATORS = [asc ''>='', asc ''<='', asc ''>'', asc ''<'', asc ''='', [8805], [8804]]"

text \<open>The dictionary \<open>{**time_units, **magnitude_units}\<close> of \<open>_extract_other_unit\<close>, in its
  iteration order.\<close>

definition other_units :: "(pystr \<times> pystr) list" where
  "other_units =
     [(asc ''jahre'', asc ''Jahre''), (asc ''year'', asc ''years''), (asc ''years'', asc ''years''),
      (asc ''yr'', asc ''years''), (asc ''monate'', asc ''Monate''), (asc ''month'', asc ''months''),
      (asc ''months'', asc ''months''), (asc ''mo'', asc ''months''), (asc ''tage'', asc ''Tage''),
      (asc ''day'', asc ''days''), (asc ''days'', asc ''days''), (asc ''wochen'', asc ''Wochen''),
      (asc ''week'', asc ''weeks''), (asc ''weeks'', asc ''weeks''),
      (asc ''mio'', asc ''mio''), (asc ''million'', asc ''mio''), (asc ''mrd'', asc ''mrd''),
      (asc ''billion'', asc ''billion''), (asc ''tsd'', asc ''tsd''),
      (asc ''thousand'', asc ''thousand''), (asc ''k'', asc ''k'')]"

text \<open>The strings \<open>parse\<close> takes for an empty cell; 8211 is the en dash.\<close>

definition null_texts :: "pystr list" where
  "null_texts =
     [[], asc ''-'', [8211], asc ''n/a'', asc ''na'', asc ''null'', asc ''none'', asc ''00:00:00'']"

section \<open>NumberUnitParser: parsing a cell\<close>

record NumberWithUnit =
  nwu_value :: "rat option"
  nwu_unit :: "pystr option"
  original_text :: pystr

text \<open>
  A cell of the sheet as \<open>parse\<close> sees it: empty (\<open>None\<close>, NaN), a number (\<open>int\<close> or
  \<open>float\<close>, not \<open>bool\<close>) with the text \<open>str(value)\<close> renders for it, or any other scalar by
  the text \<open>str(value)\<close> renders.
\<close>

datatype cell = CNull | CNum rat pystr | CText pystr

fun remove_approx_prefix :: "pystr list \<Rightarrow> pystr \<Rightarrow> pystr" where
  "remove_approx_prefix [] cleaned = cleaned"
| "remove_approx_prefix (prefix # ps) cleaned =
     (if py_startswith (py_lower cleaned) (py_lower prefix)
      then py_strip (drop (length prefix) cleaned)
      else remove_approx_prefix ps cleaned)"

fun remove_operator :: "pystr list \<Rightarrow> pystr \<Rightarrow> pystr" where
  "remove_operator [] cleaned = cleaned"
| "remove_operator (opr # ops) cleaned =
     (if py_startswith cleaned opr then py_strip (drop (length opr) cleaned)
      else remove_operator ops cleaned)"

definition clean_prefixes :: "pystr \<Rightarrow> pystr" where
  "clean_prefixes txt = remove_operator OPERATORS (remove_approx_prefix APPROX_PREFIXES (py_strip txt))"

definition dict_get :: "('k \<times> 'v) list \<Rightarrow> 'k \<Rightarrow> 'v \<Rightarrow> 'v" where
  "dict_get d k dflt = (case map_of d k of Some v \<Rightarrow> v | None \<Rightarrow> dflt)"

definition parse_percentage :: "pystr \<Rightarrow> NumberWithUnit" where
  "parse_percentage txt =
     (let cleaned = clean_prefixes txt in
      case percent_search cleaned of
        Some num_str \<Rightarrow>
          \<lparr>nwu_value = parse_numeric_string num_str, nwu_unit = Some (asc ''%''), original_text = txt\<rparr>
      | None \<Rightarrow>
          \<lparr>nwu_value = parse_numeric_string (py_replace 37 [] cleaned),
           nwu_unit = Some (asc ''%''), original_text = txt\<rparr>)"

definition parse_currency :: "pystr \<Rightarrow> NumberWithUnit" where
  "parse_currency txt =
     (let cleaned = clean_prefixes txt;
          (currency, cleaned) =
             (case re_search currency_symbol_pattern cleaned of
                Some symbol \<Rightarrow>
                  (Some (dict_get CURRENCY_SYMBOLS symbol symbol), re_sub currency_symbol_pattern cleaned)
              | None \<Rightarrow> (None, cleaned));
          (currency, cleaned) =
             (case re_search currency_code_pattern cleaned of
                Some code \<Rightarrow> (Some (py_upper code), re_sub currency_code_pattern cleaned)
              | None \<Rightarrow> (currency, cleaned))
      in \<lparr>nwu_value = parse_numeric_string cleaned, nwu_unit = currency, original_text = txt\<rparr>)"

definition parse_area :: "pystr \<Rightarrow> NumberWithUnit" where
  "parse_area txt =
     (let cleaned = clean_prefixes txt;
          (unit, cleaned) =
             (case re_search area_pattern cleaned of
                Some m \<Rightarrow>
                  (let unit_raw = py_strip (py_lower m)
                   in (Some (dict_get AREA_UNITS unit_raw unit_raw), re_sub area_pattern cleaned))
              | None \<Rightarrow> (None, cleaned))
      in \<lparr>nwu_value = parse_numeric_string cleaned, nwu_unit = unit, original_text = txt\<rparr>)"

fun first_unit :: "(pystr \<times> pystr) list \<Rightarrow> pystr \<Rightarrow> pystr option" where
  "first_unit [] text_lower = None"
| "first_unit ((key, val) # kvs) text_lower =
     (if re_search (bounded_word False key) text_lower \<noteq> None then Some val
      else first_unit kvs text_lower)"

definition extract_other_unit :: "pystr \<Rightarrow> pystr option" where
  "extract_other_unit txt = first_unit other_units (py_lower txt)"

definition parse_with_unit :: "pystr \<Rightarrow> pystr \<Rightarrow> NumberWithUnit" where
  "parse_with_unit txt unit =
     (let cleaned = clean_prefixes txt;
          cleaned = re_sub (bounded_word True (py_lower unit)) cleaned;
          cleaned = re_sub (bounded_word True unit) cleaned
      in \<lparr>nwu_value = parse_numeric_string cleaned, nwu_unit = Some unit, original_text = txt\<rparr>)"

text \<open>The string path of \<open>parse\<close>, from \<open>original = str(value).strip()\<close> on.\<close>

definition parse_text :: "pystr \<Rightarrow> NumberWithUnit" where
  "parse_text s =
     (let original = py_strip s in
      if original = [] \<or> py_lower original \<in> set null_texts
      then \<lparr>nwu_value = None, nwu_unit = None, original_text = original\<rparr>
      else
        (let cleaned = clean_prefixes original in
         if 37 \<in> set cleaned then parse_percentage original
         else if re_search currency_symbol_pattern cleaned \<noteq> None
                 \<or> re_search currency_code_pattern cleaned \<noteq> None
           then parse_currency original
         else if re_search area_pattern cleaned \<noteq> None then parse_area original
         else (case extract_other_unit cleaned of
                 Some other_unit \<Rightarrow> parse_with_unit original other_unit
               | None \<Rightarrow>
                   \<lparr>nwu_value = parse_numeric_string cleaned, nwu_unit = None,
                    original_text = original\<rparr>)))"

definition parse :: "cell \<Rightarrow> pystr option \<Rightarrow> NumberWithUnit" where
  "parse v context_hint =
     (case v of
        CNull \<Rightarrow> \<lparr>nwu_value = None, nwu_unit = None, original_text = []\<rparr>
      | CNum x rendered \<Rightarrow> \<lparr>nwu_value = Some x, nwu_unit = None, original_text = rendered\<rparr>
      | CText s \<Rightarrow> parse_text s)"


section \<open>HeaderMapper\<close>

text \<open>
  \<open>self.synonyms\<close> is a dictionary from a canonical field name to its list of synonyms, in
  insertion order: \<open>DEFAULT_SYNONYMS\<close>, extended by the optional synonyms file. Every function
  of the mapper takes it as its first argument.
\<close>

type_synonym synonyms = "(pystr \<times> pystr list) list"

definition DEFAULT_SYNONYMS :: "(pystr \<times> pystr list) list" where
  "DEFAULT_SYNONYMS =
     [(asc ''unit_id'',
       [asc ''unit id'', asc ''unit-id'', asc ''unit number'', asc ''einheit'',
        asc ''einheit nr'', asc ''unit no'', asc ''mieteinheit'',
        asc ''num'' @ [233] @ asc ''ro d'' @ [39] @ asc ''unit'' @ [233],
        asc ''numero unit'' @ [224], asc ''eenheidnummer'']),
      (asc ''tenant_name'',
       [asc ''tenant'', asc ''tenant name'', asc ''mieter'', asc ''mietername'',
        asc ''locataire'', asc ''nom du locataire'', asc ''inquilino'', asc ''huurder'',
        asc ''najemca'', asc ''hyresg'' @ [228] @ asc ''st'', asc ''customer'', asc ''kunde'',
        asc ''client'']),
      (asc ''area_sqm'',
       [asc ''area sqm'', asc ''area (sqm)'', asc ''fl'' @ [228] @ asc ''che m'' @ [178],
        asc ''fl'' @ [228] @ asc ''che (m'' @ [178] @ asc '')'', asc ''sqm'',
        asc ''m'' @ [178], asc ''m2'', asc ''superficie (m'' @ [178] @ asc '')'',
        asc ''oppervlakte (m'' @ [178] @ asc '')'',
        asc ''powierzchnia (m'' @ [178] @ asc '')'']),
      (asc ''area_sqft'',
       [asc ''area sqft'', asc ''area (sqft)'', asc ''sqft'', asc ''sq ft'',
        asc ''square feet'', asc ''sf'']),
      (asc ''monthly_rent'',
       [asc ''monthly rent'', asc ''rent'', asc ''miete'', asc ''monatliche miete'',
        asc ''monatsmiete'', asc ''loyer mensuel'', asc ''affitto mensile'',
        asc ''maandelijkse huur'', asc ''czynsz miesi'' @ [281] @ asc ''czny'', asc ''nkm'',
        asc ''nkm ist-miete'', asc ''netto kaltmiete'', asc ''cold rent'']),
      (asc ''annual_rent'',
       [asc ''annual rent'', asc ''yearly rent'', asc ''jahresmiete'', asc ''loyer annuel'',
        asc ''affitto annuale'', asc ''jaarlijkse huur'', asc ''roczny czynsz'']),
      (asc ''lease_start'',
       [asc ''lease start'', asc ''lease start date'', asc ''start date'', asc ''mietbeginn'',
        asc ''vertragsbeginn'', asc ''d'' @ [233] @ asc ''but du bail'',
        asc ''inizio locazione'', asc ''startdatum'']),
      (asc ''lease_end'',
       [asc ''lease end'', asc ''lease end date'', asc ''end date'', asc ''mietende'',
        asc ''vertragsende'', asc ''laufzeitende'', asc ''fin du bail'',
        asc ''fine locazione'', asc ''einddatum'']),
      (asc ''status'',
       [asc ''status'', asc ''occupancy'', asc ''belegung'', [233] @ asc ''tat'',
        asc ''stato'', asc ''bezettingsstatus'']),
      (asc ''currency'',
       [asc ''currency'', asc ''w'' @ [228] @ asc ''hrung'', asc ''devise'', asc ''valuta'',
        asc ''moneda'']),
      (asc ''lease_type'',
       [asc ''lease type'', asc ''vertragsart'', asc ''mietvertragsart'', asc ''type de bail'']),
      (asc ''usage_type'',
       [asc ''usage type'', asc ''nutzungsart'', asc ''type d'' @ [39] @ asc ''utilisation'',
        asc ''uso'']),
      (asc ''occupancy_rate'',
       [asc ''occupancy rate'', asc ''belegungsquote'',
        asc ''taux d'' @ [39] @ asc ''occupation'']),
      (asc ''service_charge'',
       [asc ''service charge'', asc ''nebenkosten'', asc ''betriebskosten'', asc ''nk'',
        asc ''charges'', asc ''oneri accessori'', asc ''servicekosten'']),
      (asc ''parking_spaces'',
       [asc ''parking'', asc ''parking spaces'', asc ''parkpl'' @ [228] @ asc ''tze'',
        asc ''stellpl'' @ [228] @ asc ''tze'', asc ''places de parking'', asc ''posti auto'',
        asc ''parkeerplaatsen'']),
      (asc ''sap_object_number'',
       [asc ''sap objektnummer'', asc ''sap-objektnummer'', asc ''sap object number'',
        asc ''sap object'', asc ''sap-objektnr'', asc ''sap objektnr'', asc ''sap id'',
        asc ''sap-object'', asc ''sap objekt id'', asc ''sap-objekt'']),
      (asc ''composite_unit_id'',
       [asc ''mo/bk/wirtschaftseinheit/mo-nr'', asc ''mo/bk/wirtschaftseinheit/mo'',
        asc ''mo/bk/wi/mo-nr'', asc ''mo-bk-wirtschaftseinheit-mo-nr'',
        asc ''mo / bk / wirtschaftseinheit / mo-nr'', asc ''composite unit id'',
        asc ''composite unit'', asc ''mo bk wirtschaftseinheit mo nr'']),
      (asc ''mo_number'',
       [asc ''mo nummer'', asc ''mo-nummer'', asc ''mo nr'', asc ''mo-nr'', asc ''mo number'',
        asc ''mo no'', asc ''mietobjekt nummer'', asc ''mietobjekt-nr'',
        asc ''mietobjekt-nr.'']),
      (asc ''business_unit'',
       [asc ''wirtschaftseinheit'', asc ''business unit'', asc ''wirtschafts einheit'',
        asc ''wi einheit'', asc ''we'', asc ''we einheit'']),
      (asc ''business_unit_code'',
       [asc ''k'' @ [252] @ asc ''rzel der wirtschaftseinheit'',
        asc ''wirtschaftseinheit k'' @ [252] @ asc ''rzel'',
        asc ''we k'' @ [252] @ asc ''rzel'', asc ''unit code'',
        asc ''einheitsk'' @ [252] @ asc ''rzel'', asc ''c'', asc ''we code'']),
      (asc ''bookkeeping_area'',
       [asc ''bk'', asc ''buchungskreis'', asc ''booking area'', asc ''buchungsbereich'']),
      (asc ''contractual_partner'',
       [asc ''vertragspartner'', asc ''vrtragspartner'', asc ''contractual partner'',
        asc ''contract partner'']),
      (asc ''contract_id'',
       [asc ''contract id'', asc ''stammvertrag-id'', asc ''vertragsnummer'',
        asc ''vertrags-nr'', asc ''vertragsnr'', asc ''vertrags nr'', asc ''contract number'',
        asc ''contract no.'', asc ''u''])]"

definition FIELD_TYPE_HINTS :: "(pystr \<times> pystr) list" where
  "FIELD_TYPE_HINTS =
     [(asc ''monthly_rent'', asc ''currency''), (asc ''annual_rent'', asc ''currency''),
      (asc ''market_rent'', asc ''currency''), (asc ''rent_reduction'', asc ''currency''),
      (asc ''rent_parking_monthly'', asc ''currency''),
      (asc ''rent_other_income'', asc ''currency''),
      (asc ''service_charge'', asc ''currency''), (asc ''deposit'', asc ''currency''),
      (asc ''area_sqm'', asc ''area''), (asc ''area_sqft'', asc ''area''),
      (asc ''occupancy_rate'', asc ''percentage''),
      (asc ''escalation_rate'', asc ''percentage''),
      (asc ''indexation_rate'', asc ''percentage''),
      (asc ''vacancy_rate'', asc ''percentage'')]"

text \<open>\<open>re.sub(r'\s+', ' ', h)\<close>: every run of white space becomes one space; the flag says
  that the character before was white space.\<close>

fun collapse_spaces :: "bool \<Rightarrow> pystr \<Rightarrow> pystr" where
  "collapse_spaces in_run [] = []"
| "collapse_spaces in_run (c # s) =
     (if is_space c then (if in_run then collapse_spaces True s else 32 # collapse_spaces True s)
      else c # collapse_spaces False s)"

definition normalize_header :: "pystr \<Rightarrow> pystr" where
  "normalize_header header =
     (let h = py_strip (py_lower header);
          h = map (\<lambda>c. if is_word c \<or> is_space c then c else 32) h;
          h = collapse_spaces False h
      in py_strip h)"

text \<open>One pass of the inner loop of \<open>map_header\<close>: the synonym returns its canonical name
  when it equals the normalized header, or when it is longer than three characters and
  the normalized header contains it.\<close>

definition synonym_hit :: "pystr \<Rightarrow> pystr \<Rightarrow> bool" where
  "synonym_hit normalized syn \<longleftrightarrow>
     normalize_header syn = normalized
     \<or> (length syn > 3 \<and> py_contains (normalize_header syn) normalized)"

fun map_header_loop :: "synonyms \<Rightarrow> pystr \<Rightarrow> pystr option" where
  "map_header_loop [] normalized = None"
| "map_header_loop ((canonical, syns) # rest) normalized =
     (if list_ex (synonym_hit normalized) syns then Some canonical
      else map_header_loop rest normalized)"

definition map_header :: "synonyms \<Rightarrow> pystr \<Rightarrow> pystr option" where
  "map_header synonyms raw_header =
     (let normalized = normalize_header raw_header in
      if normalized = [] then None else map_header_loop synonyms normalized)"

definition get_field_type_hint :: "pystr \<Rightarrow> pystr option" where
  "get_field_type_hint canonical_field = map_of FIELD_TYPE_HINTS canonical_field"

section \<open>Records\<close>

text \<open>
  A record is a Python \<open>dict\<close> from field names to scalars, kept in insertion order:
  \<open>record[k] = v\<close> is \<open>AList.update k v\<close> (in place for a key that is present, at the end
  for a new one), \<open>del record[k]\<close> is \<open>AList.delete k\<close>, \<open>record.get(k)\<close> is \<open>rec_get\<close>.
  A scalar is \<open>None\<close>, a string, or a number.
\<close>

datatype pyval = VNone | VStr pystr | VNum rat

type_synonym pyrecord = "(pystr \<times> pyval) list"

definition rec_get :: "pyrecord \<Rightarrow> pystr \<Rightarrow> pyval" where
  "rec_get r k = (case map_of r k of Some v \<Rightarrow> v | None \<Rightarrow> VNone)"

fun truthy :: "pyval \<Rightarrow> bool" where
  "truthy VNone = False"
| "truthy (VStr s) = (s \<noteq> [])"
| "truthy (VNum x) = (x \<noteq> 0)"

fun nat_digits :: "nat \<Rightarrow> pystr" where
  "nat_digits n = (if n < 10 then [48 + int n] else nat_digits (n div 10) @ [48 + int (n mod 10)])"

definition py_str_int :: "int \<Rightarrow> pystr" where
  "py_str_int i = (if i < 0 then 45 # nat_digits (nat (- i)) else nat_digits (nat i))"

text \<open>\<open>int(float(x))\<close>: truncation towards zero.\<close>

definition py_int :: "rat \<Rightarrow> int" where
  "py_int x = (if x \<ge> 0 then \<lfloor>x\<rfloor> else \<lceil>x\<rceil>)"

text \<open>\<open>str(int(float(v)))\<close> for a number, \<open>str(v).strip()\<close> for a string.\<close>

fun integer_like_string :: "pyval \<Rightarrow> pystr" where
  "integer_like_string (VNum x) = py_str_int (py_int x)"
| "integer_like_string (VStr s) = py_strip s"
| "integer_like_string VNone = py_strip (asc ''None'')"

section \<open>RentRollExcelReader: identity resolution\<close>

text \<open>\<open>re.sub(r'\.0+$', '', s)\<close>: a dot and the zeros after it, at the end of the string or
  before a final newline (10).\<close>

definition remove_trailing_dot_zeros :: "pystr \<Rightarrow> pystr" where
  "remove_trailing_dot_zeros s =
     (let nl = (if s \<noteq> [] \<and> last s = 10 then [10] else []);
          body = (if s \<noteq> [] \<and> last s = 10 then butlast s else s);
          zeros = takeWhile (\<lambda>c. c = 48) (rev body);
          front = dropWhile (\<lambda>c. c = 48) (rev body)
      in case front of
           [] \<Rightarrow> s
         | d # q \<Rightarrow> if zeros \<noteq> [] \<and> d = 46 then rev q @ nl else s)"

text \<open>\<open>re.fullmatch(r'\d+', s)\<close>.\<close>

definition all_digits :: "pystr \<Rightarrow> bool" where
  "all_digits s \<longleftrightarrow> s \<noteq> [] \<and> list_all is_digit s"

definition trunk_prefixes :: "pystr list" where
  "trunk_prefixes =
     map asc [''01'', ''02'', ''03'', ''04'', ''05'', ''06'', ''07'', ''08'', ''09'']"

definition is_phone_number :: "pystr \<Rightarrow> bool" where
  "is_phone_number txt =
     (if txt = [] then False
      else
        (let cleaned = filter (\<lambda>c. \<not> (is_space c \<or> c = 45)) txt in
         if py_startswith cleaned [43] then length (filter is_digit cleaned) \<ge> 9
         else if list_ex (py_startswith cleaned) trunk_prefixes
           then length (filter is_digit cleaned) \<ge> 9
         else False))"

definition resolve_tenant :: "pyrecord \<Rightarrow> pyrecord" where
  "resolve_tenant record =
     (let tenant_value = rec_get record (asc ''tenant_name'') in
      if tenant_value \<noteq> VNone \<and> tenant_value \<noteq> VStr [] then
        (let num_str = remove_trailing_dot_zeros (integer_like_string tenant_value) in
         if all_digits num_str \<and> \<not> is_phone_number num_str
         then AList.delete (asc ''tenant_name'')
                (AList.update (asc ''tenant_id'') (VStr num_str) record)
         else record)
      else record)"

definition fallback_partner :: "pyrecord \<Rightarrow> pyrecord" where
  "fallback_partner record =
     (if \<not> truthy (rec_get record (asc ''tenant_name''))
         \<and> \<not> truthy (rec_get record (asc ''tenant_id''))
      then (let partner = rec_get record (asc ''contractual_partner'') in
            if truthy partner then AList.update (asc ''tenant_name'') partner record else record)
      else record)"

definition py_join :: "pystr \<Rightarrow> pystr list \<Rightarrow> pystr" where
  "py_join sep parts = (case parts of [] \<Rightarrow> [] | p # ps \<Rightarrow> p @ concat (map (\<lambda>q. sep @ q) ps))"

definition resolve_unit_id :: "pyrecord \<Rightarrow> pyrecord" where
  "resolve_unit_id record =
     (if \<not> truthy (rec_get record (asc ''unit_id'')) then
        (let composite = rec_get record (asc ''composite_unit_id'') in
         if truthy composite then AList.update (asc ''unit_id'') composite record
         else
           (let sap_obj = rec_get record (asc ''sap_object_number'') in
            if truthy sap_obj then AList.update (asc ''unit_id'') sap_obj record
            else
              (let contract = rec_get record (asc ''contract_id'') in
               if truthy contract then AList.update (asc ''unit_id'') contract record
               else
                 (let bk = rec_get record (asc ''bookkeeping_area'');
                      bu = (if truthy (rec_get record (asc ''business_unit''))
                            then rec_get record (asc ''business_unit'')
                            else rec_get record (asc ''business_unit_code''));
                      mo = rec_get record (asc ''mo_number'');
                      parts = map integer_like_string (filter truthy [bk, bu, mo])
                  in if parts \<noteq> []
                     then AList.update (asc ''unit_id'') (VStr (py_join (asc ''-'') parts)) record
                     else record))))
      else record)"

definition resolve_asset_id :: "pyrecord \<Rightarrow> pyrecord" where
  "resolve_asset_id record =
     (if truthy (rec_get record (asc ''sap_object_number''))
         \<and> \<not> truthy (rec_get record (asc ''asset_id''))
      then AList.update (asc ''asset_id'') (rec_get record (asc ''sap_object_number'')) record
      else record)"

text \<open>The body of the loop of \<open>_resolve_tenant_and_unit\<close>, and the loop: every record of the
  list is updated in place.\<close>

definition resolve_record :: "pyrecord \<Rightarrow> pyrecord" where
  "resolve_record record = resolve_asset_id (resolve_unit_id (fallback_partner (resolve_tenant record)))"

definition resolve_tenant_and_unit :: "pyrecord list \<Rightarrow> pyrecord list" where
  "resolve_tenant_and_unit records = map resolve_record records"

section \<open>DataExtractor\<close>

text \<open>
  A sheet is the grid \<open>pd.read_excel(..., header=None)\<close> returns: a list of rows, each a
  list of cells. \<open>row.iloc[i]\<close> outside the row raises \<open>IndexError\<close>.
\<close>

type_synonym grid = "cell list list"

text \<open>\<open>str(cell)\<close>; an empty cell is NaN.\<close>

fun cell_str :: "cell \<Rightarrow> pystr" where
  "cell_str CNull = asc ''nan''"
| "cell_str (CNum x rendered) = rendered"
| "cell_str (CText s) = s"

text \<open>\<open>str(cell) if not pd.isna(cell) else ''\<close>.\<close>

fun cell_text :: "cell \<Rightarrow> pystr" where
  "cell_text CNull = []"
| "cell_text c = cell_str c"

definition SUMMARY_KEYWORDS :: "pystr list" where
  "SUMMARY_KEYWORDS =
     [asc ''total'', asc ''totals'', asc ''gesamt'', asc ''summe'', asc ''ergebnis'',
      asc ''total g'' @ [233] @ asc ''n'' @ [233] @ asc ''ral'', asc ''totale'',
      asc ''totaal'', asc ''razem'', asc ''totalt'', asc ''grand total'', asc ''subtotal'',
      asc ''zwischensumme'', asc ''vacant'', asc ''vacancy'', asc ''leerstand'']"

definition text_fields :: "pystr list" where
  "text_fields = map asc
     [''tenant_name'', ''unit_id'', ''status'', ''usage_type'', ''lease_type'',
      ''contract_id'', ''contractual_partner'', ''sap_object_number'', ''composite_unit_id'',
      ''mo_number'', ''business_unit'', ''business_unit_code'', ''bookkeeping_area'']"

definition meaningful_fields :: "pystr list" where
  "meaningful_fields = map asc
     [''tenant_name'', ''unit_id'', ''monthly_rent_value'', ''annual_rent_value'',
      ''area_sqm_value'', ''area_sqft_value'', ''contractual_partner'', ''contract_id'',
      ''sap_object_number'', ''mo_number'', ''bookkeeping_area'']"

definition is_summary_row :: "pystr \<Rightarrow> bool" where
  "is_summary_row first_cell =
     (let cell_lower = py_strip (py_lower first_cell)
      in list_ex (\<lambda>kw. py_contains kw cell_lower) SUMMARY_KEYWORDS)"

text \<open>\<open>row.isna().all() or all(str(cell).strip() == '' for cell in row if not pd.isna(cell))\<close>.\<close>

definition is_empty_row :: "cell list \<Rightarrow> bool" where
  "is_empty_row row \<longleftrightarrow>
     list_all (\<lambda>c. c = CNull) row
     \<or> list_all (\<lambda>c. py_strip (cell_str c) = []) (filter (\<lambda>c. c \<noteq> CNull) row)"

fun opt_num :: "rat option \<Rightarrow> pyval" where
  "opt_num None = VNone"
| "opt_num (Some x) = VNum x"

text \<open>The body of the column loop of \<open>_process_row\<close> from the parsed cell on.\<close>

definition store_parsed :: "pystr \<Rightarrow> NumberWithUnit \<Rightarrow> pyrecord \<Rightarrow> pyrecord" where
  "store_parsed canonical parsed record =
     (case nwu_unit parsed of
        Some u \<Rightarrow>
          if u \<noteq> [] then
            AList.update (canonical @ asc ''_original'') (VStr (original_text parsed))
              (AList.update (canonical @ asc ''_unit'') (VStr u)
                (AList.update (canonical @ asc ''_value'') (opt_num (nwu_value parsed)) record))
          else if canonical \<in> set text_fields
            then AList.update canonical (VStr (py_strip (original_text parsed))) record
          else (case nwu_value parsed of
                  Some x \<Rightarrow> AList.update canonical (VNum x) record
                | None \<Rightarrow>
                    if original_text parsed \<noteq> []
                    then AList.update canonical (VStr (original_text parsed)) record
                    else record)
      | None \<Rightarrow>
          if canonical \<in> set text_fields
            then AList.update canonical (VStr (py_strip (original_text parsed))) record
          else (case nwu_value parsed of
                  Some x \<Rightarrow> AList.update canonical (VNum x) record
                | None \<Rightarrow>
                    if original_text parsed \<noteq> []
                    then AList.update canonical (VStr (original_text parsed)) record
                    else record))"

text \<open>The column loop: \<open>enumerate(mapped_headers)\<close> against the row; a column with no
  canonical name, or beyond the end of the row, is passed over.\<close>

fun process_columns :: "pystr option list \<Rightarrow> cell list \<Rightarrow> pyrecord \<Rightarrow> pyrecord" where
  "process_columns [] row record = record"
| "process_columns (h # hs) [] record = record"
| "process_columns (h # hs) (v # vs) record =
     process_columns hs vs
       (case h of
          None \<Rightarrow> record
        | Some canonical \<Rightarrow> store_parsed canonical (parse v (get_field_type_hint canonical)) record)"

definition process_row :: "cell list \<Rightarrow> pystr option list \<Rightarrow> nat \<Rightarrow> pyrecord" where
  "process_row row mapped_headers row_idx = process_columns mapped_headers row []"

definition has_meaningful_data :: "pyrecord \<Rightarrow> bool" where
  "has_meaningful_data record =
     list_ex (\<lambda>f. rec_get record f \<notin> set [VNone, VStr [], VNum 0]) meaningful_fields"

text \<open>What one row that is neither a summary row nor out of range adds to \<open>records\<close>:
  nothing when it is empty or has no meaningful data, else its record with the 1-indexed
  \<open>_source_row\<close>.\<close>

definition row_records :: "pystr option list \<Rightarrow> nat \<Rightarrow> cell list \<Rightarrow> pyrecord list" where
  "row_records mapped_headers row_idx row =
     (if is_empty_row row then []
      else (let record = process_row row mapped_headers row_idx in
            if has_meaningful_data record
            then [AList.update (asc ''_source_row'') (VNum (of_nat (row_idx + 1))) record]
            else []))"

text \<open>The row loop of \<open>extract_data\<close>, from \<open>row_idx\<close> on: \<open>break\<close> at a summary row.\<close>

fun extract_rows :: "pystr option list \<Rightarrow> nat \<Rightarrow> grid \<Rightarrow> py_error + pyrecord list" where
  "extract_rows mapped_headers row_idx [] = Inr []"
| "extract_rows mapped_headers row_idx (row # rows) =
     (case row of
        [] \<Rightarrow> Inl IndexError
      | c0 # _ \<Rightarrow>
          if is_summary_row (cell_text c0) then Inr []
          else (case extract_rows mapped_headers (row_idx + 1) rows of
                  Inl e \<Rightarrow> Inl e
                | Inr records \<Rightarrow> Inr (row_records mapped_headers row_idx row @ records)))"

definition extract_data :: "synonyms \<Rightarrow> grid \<Rightarrow> nat \<Rightarrow> pystr list \<Rightarrow> py_error + pyrecord list" where
  "extract_data synonyms df header_row raw_headers =
     (let mapped_headers = map (map_header synonyms) raw_headers
      in extract_rows mapped_headers (header_row + 1) (drop (header_row + 1) df))"

section \<open>SheetSelector and HeaderDetector\<close>

text \<open>
  An opened workbook: the sheet names in order, each with what \<open>pd.read_excel\<close> does for
  that sheet, raise (\<open>Inl\<close>) or return its grid. Reading with \<open>nrows=30\<close> returns the first
  30 rows of the grid.
\<close>

type_synonym workbook = "(pystr \<times> (py_error + grid)) list"

definition sheet_names :: "workbook \<Rightarrow> pystr list" where
  "sheet_names wb = map fst wb"

definition read_sheet :: "workbook \<Rightarrow> pystr \<Rightarrow> py_error + grid" where
  "read_sheet wb sheet_name =
     (case map_of wb sheet_name of
        Some r \<Rightarrow> r
      | None \<Rightarrow> Inl (IOError (asc ''Worksheet not found'')))"

definition read_sheet_nrows :: "workbook \<Rightarrow> pystr \<Rightarrow> nat \<Rightarrow> py_error + grid" where
  "read_sheet_nrows wb sheet_name n =
     (case read_sheet wb sheet_name of Inl e \<Rightarrow> Inl e | Inr df \<Rightarrow> Inr (take n df))"

definition SHEET_KEYWORDS :: "pystr list" where
  "SHEET_KEYWORDS =
     [asc ''rent roll'', asc ''rentroll'', asc ''rent_roll'', asc ''mieterliste'',
      asc ''mieter'', asc ''mieter'' @ [252] @ asc ''bersicht'', asc ''tenancy'',
      asc ''tenant'', asc ''tenants'', [233] @ asc ''tat locatif'', asc ''locataire'',
      asc ''elenco locatari'', asc ''inquilini'', asc ''huurderslijst'', asc ''huurders'',
      asc ''lista najemc'' @ [243] @ asc ''w'', asc ''najemcy'',
      asc ''hyresg'' @ [228] @ asc ''ster'', asc ''hyresf'' @ [246] @ asc ''rteckning'',
      asc ''stacking plan'', asc ''schedule'']"

definition SKIP_KEYWORDS :: "pystr list" where
  "SKIP_KEYWORDS =
     [asc ''summary'', asc ''total'', asc ''totals'', asc ''zusammenfassung'',
      [252] @ asc ''bersicht'', asc ''notes'', asc ''notizen'', asc ''hinweise'',
      asc ''instructions'', asc ''anleitung'', asc ''index'', asc ''inhaltsverzeichnis'',
      asc ''cover'', asc ''deckblatt'', asc ''template'', asc ''vorlage'', asc ''example'',
      asc ''beispiel'']"

definition should_skip_sheet :: "pystr \<Rightarrow> bool" where
  "should_skip_sheet sheet_name =
     (let name_lower = py_strip (py_lower sheet_name)
      in list_ex (\<lambda>kw. py_contains kw name_lower) SKIP_KEYWORDS)"

definition is_likely_rent_roll :: "pystr \<Rightarrow> bool" where
  "is_likely_rent_roll sheet_name =
     (let name_lower = py_strip (py_lower sheet_name)
      in list_ex (\<lambda>kw. py_contains kw name_lower) SHEET_KEYWORDS)"

text \<open>The truth value Python gives the result of \<open>map_header\<close>.\<close>

definition mapped :: "pystr option \<Rightarrow> bool" where
  "mapped r = (case r of None \<Rightarrow> False | Some canonical \<Rightarrow> canonical \<noteq> [])"

definition count_header_matches :: "synonyms \<Rightarrow> grid \<Rightarrow> nat" where
  "count_header_matches synonyms df =
     sum_list (map (\<lambda>row. length (filter (\<lambda>c. mapped (map_header synonyms (cell_str c))) row))
                   (take 30 df))"

fun best_sheet_loop ::
  "synonyms \<Rightarrow> workbook \<Rightarrow> pystr list \<Rightarrow> pystr option \<times> int \<Rightarrow> pystr option \<times> int" where
  "best_sheet_loop synonyms wb [] best = best"
| "best_sheet_loop synonyms wb (sheet_name # rest) (best_sheet, best_score) =
     (if should_skip_sheet sheet_name then best_sheet_loop synonyms wb rest (best_sheet, best_score)
      else
        (let score = (if is_likely_rent_roll sheet_name then 10 else 0)
                     + (case read_sheet_nrows wb sheet_name 30 of
                          Inr df \<Rightarrow> int (count_header_matches synonyms df)
                        | Inl e \<Rightarrow> 0)
         in if score > best_score then best_sheet_loop synonyms wb rest (Some sheet_name, score)
            else best_sheet_loop synonyms wb rest (best_sheet, best_score)))"

definition select_best_sheet :: "synonyms \<Rightarrow> workbook \<Rightarrow> py_error + pystr" where
  "select_best_sheet synonyms wb =
     (case sheet_names wb of
        [only] \<Rightarrow> Inr only
      | names \<Rightarrow>
          (case fst (best_sheet_loop synonyms wb names (None, - 1)) of
             Some best \<Rightarrow>
               if best \<noteq> [] then Inr best
               else (case names of [] \<Rightarrow> Inl IndexError | n # _ \<Rightarrow> Inr n)
           | None \<Rightarrow> (case names of [] \<Rightarrow> Inl IndexError | n # _ \<Rightarrow> Inr n)))"

definition get_all_data_sheets :: "synonyms \<Rightarrow> workbook \<Rightarrow> pystr list" where
  "get_all_data_sheets synonyms wb =
     (let data_sheets =
            filter (\<lambda>n. \<not> should_skip_sheet n
                        \<and> (case read_sheet_nrows wb n 30 of
                             Inr df \<Rightarrow> count_header_matches synonyms df > 0
                           | Inl e \<Rightarrow> False))
                   (sheet_names wb);
          data_sheets = (if data_sheets = []
                         then filter (\<lambda>n. \<not> should_skip_sheet n) (sheet_names wb)
                         else data_sheets)
      in if data_sheets \<noteq> [] then data_sheets else take 1 (sheet_names wb))"

fun header_scan ::
  "synonyms \<Rightarrow> nat \<Rightarrow> grid \<Rightarrow> nat option \<times> nat \<times> pystr list \<Rightarrow> nat option \<times> nat \<times> pystr list" where
  "header_scan synonyms row_idx [] best = best"
| "header_scan synonyms row_idx (row # rows) (best_row, best_score, best_headers) =
     (let headers = map cell_text row;
          score = length (filter (\<lambda>h. mapped (map_header synonyms h)) headers)
      in header_scan synonyms (row_idx + 1) rows
           (if score > best_score then (Some row_idx, score, headers)
            else (best_row, best_score, best_headers)))"

definition find_header_row :: "synonyms \<Rightarrow> grid \<Rightarrow> nat \<Rightarrow> (nat \<times> pystr list) option" where
  "find_header_row synonyms df max_rows =
     (case header_scan synonyms 0 (take max_rows df) (None, 0, []) of
        (best_row, best_score, best_headers) \<Rightarrow>
          if best_score \<ge> 2
          then (case best_row of Some r \<Rightarrow> Some (r, best_headers) | None \<Rightarrow> None)
          else None)"

fun combine_headers :: "cell list \<Rightarrow> cell list \<Rightarrow> py_error + pystr list" where
  "combine_headers prev_row [] = Inr []"
| "combine_headers [] (c # cs) = Inl IndexError"
| "combine_headers (p # ps) (c # cs) =
     (case combine_headers ps cs of
        Inl e \<Rightarrow> Inl e
      | Inr rest \<Rightarrow>
          Inr ((let prev_val = cell_text p; curr_val = cell_text c
                in if prev_val \<noteq> [] \<and> curr_val \<noteq> [] then prev_val @ asc '' '' @ curr_val
                   else if curr_val \<noteq> [] then curr_val else prev_val) # rest))"

definition handle_multi_level_headers :: "grid \<Rightarrow> nat \<Rightarrow> py_error + pystr list" where
  "handle_multi_level_headers df header_row =
     (if header_row = 0 then
        (case df of [] \<Rightarrow> Inl IndexError | r # _ \<Rightarrow> Inr (map cell_text r))
      else if header_row < length df
        then combine_headers (df ! (header_row - 1)) (df ! header_row)
      else Inl IndexError)"

section \<open>RentRollExcelReader: reading a workbook\<close>

text \<open>
  \<open>ExtractionResult\<close> without its \<open>metadata\<close> dictionary, which holds the file path, the
  sheet names, counts that the other fields give, and the language detected from the
  headers; the language detection reads the sheets once more inside its own
  \<open>try/except\<close> and changes nothing else.
\<close>

record ExtractionResult =
  success :: bool
  data :: "pyrecord list"
  message :: pystr
  warnings :: "pystr list"
  sheets_processed :: nat
  total_rows_extracted :: nat

text \<open>\<open>str(e)\<close> of an exception.\<close>

fun error_message :: "py_error \<Rightarrow> pystr" where
  "error_message (IOError m) = m"
| "error_message IndexError = asc ''single positional indexer is out-of-bounds''"
| "error_message ValueError = asc ''could not convert string to float''"
| "error_message TypeError = asc ''unsupported operand''"

definition no_header_warning :: "pystr \<Rightarrow> pystr" where
  "no_header_warning sheet_name =
     asc ''Sheet '' @ [39] @ sheet_name @ [39] @ asc '': Could not detect header row''"

definition error_warning :: "pystr \<Rightarrow> py_error \<Rightarrow> pystr" where
  "error_warning sheet_name e =
     asc ''Sheet '' @ [39] @ sheet_name @ [39] @ asc '': Error - '' @ error_message e"

definition stamp_record :: "pystr \<Rightarrow> pystr \<Rightarrow> pystr \<Rightarrow> pyrecord \<Rightarrow> pyrecord" where
  "stamp_record file_name sheet_name extraction_timestamp record =
     AList.update (asc ''_extraction_timestamp'') (VStr extraction_timestamp)
       (AList.update (asc ''_source_sheet'') (VStr sheet_name)
         (AList.update (asc ''_source_file'') (VStr file_name) record))"

text \<open>
  The body of the sheet loop of \<open>read_excel\<close>: the warning the sheet leaves (\<open>Inl\<close>), or
  the stamped records it adds (\<open>Inr\<close>). \<open>clock\<close> gives \<open>datetime.now().isoformat()\<close> as read
  while the named sheet is processed.
\<close>

definition process_sheet ::
  "synonyms \<Rightarrow> workbook \<Rightarrow> pystr \<Rightarrow> (pystr \<Rightarrow> pystr) \<Rightarrow> pystr \<Rightarrow> pystr + pyrecord list" where
  "process_sheet synonyms wb file_name clock sheet_name =
     (case read_sheet wb sheet_name of
        Inl e \<Rightarrow> Inl (error_warning sheet_name e)
      | Inr df \<Rightarrow>
          (case find_header_row synonyms df 30 of
             None \<Rightarrow> Inl (no_header_warning sheet_name)
           | Some (header_row, raw_headers) \<Rightarrow>
               (case (if header_row > 0 then handle_multi_level_headers df header_row
                      else Inr raw_headers) of
                  Inl e \<Rightarrow> Inl (error_warning sheet_name e)
                | Inr raw_headers \<Rightarrow>
                    (case extract_data synonyms df header_row raw_headers of
                       Inl e \<Rightarrow> Inl (error_warning sheet_name e)
                     | Inr records \<Rightarrow>
                         Inr (map (stamp_record file_name sheet_name (clock sheet_name)) records)))))"

fun process_sheets ::
  "synonyms \<Rightarrow> workbook \<Rightarrow> pystr \<Rightarrow> (pystr \<Rightarrow> pystr) \<Rightarrow> pystr list
     \<Rightarrow> pyrecord list \<times> pystr list \<times> nat \<Rightarrow> pyrecord list \<times> pystr list \<times> nat" where
  "process_sheets synonyms wb file_name clock [] acc = acc"
| "process_sheets synonyms wb file_name clock (sheet_name # rest) (all_records, warns, processed) =
     process_sheets synonyms wb file_name clock rest
       (case process_sheet synonyms wb file_name clock sheet_name of
          Inl w \<Rightarrow> (all_records, warns @ [w], processed)
        | Inr records \<Rightarrow> (all_records @ records, warns, processed + 1))"

definition sheets_to_process :: "synonyms \<Rightarrow> workbook \<Rightarrow> bool \<Rightarrow> py_error + pystr list" where
  "sheets_to_process synonyms wb process_all_sheets =
     (if process_all_sheets then Inr (get_all_data_sheets synonyms wb)
      else (case select_best_sheet synonyms wb of
              Inl e \<Rightarrow> Inl e
            | Inr best_sheet \<Rightarrow> Inr (if best_sheet \<noteq> [] then [best_sheet] else [])))"

text \<open>
  \<open>read_excel\<close>. \<open>opened\<close> is what \<open>pd.ExcelFile(filepath)\<close> does: raise or return the
  workbook. \<open>Inl\<close> is an exception that leaves \<open>read_excel\<close>.
\<close>

definition read_excel ::
  "synonyms \<Rightarrow> py_error + workbook \<Rightarrow> pystr \<Rightarrow> (pystr \<Rightarrow> pystr) \<Rightarrow> bool
     \<Rightarrow> py_error + ExtractionResult" where
  "read_excel synonyms opened file_name clock process_all_sheets =
     (case opened of
        Inl e \<Rightarrow>
          Inr \<lparr>success = False, data = [],
               message = asc ''Failed to open Excel file: '' @ error_message e,
               warnings = [error_message e], sheets_processed = 0, total_rows_extracted = 0\<rparr>
      | Inr wb \<Rightarrow>
          (case sheets_to_process synonyms wb process_all_sheets of
             Inl e \<Rightarrow> Inl e
           | Inr sheets \<Rightarrow>
               if sheets = [] then
                 Inr \<lparr>success = False, data = [],
                      message = asc ''No suitable sheets found in Excel file'',
                      warnings = [asc ''Could not identify any rent roll sheets''],
                      sheets_processed = 0, total_rows_extracted = 0\<rparr>
               else
                 (case process_sheets synonyms wb file_name clock sheets ([], [], 0) of
                    (all_records, warns, processed) \<Rightarrow>
                      (let all_records = resolve_tenant_and_unit all_records in
                       Inr \<lparr>success = (length all_records > 0), data = all_records,
                            message = asc ''Extracted '' @ py_str_int (int (length all_records))
                                      @ asc '' records from '' @ py_str_int (int processed)
                                      @ asc '' sheet(s)'',
                            warnings = warns, sheets_processed = processed,
                            total_rows_extracted = length all_records\<rparr>))))"

section \<open>DataValidator\<close>

text \<open>
  A \<open>ValidationError\<close> without its message text, which repeats the field and the value.
  \<open>validate\<close> is modelled with the list of records as its state: it returns the records as
  they are after the call, and the issues or the exception that ended it (a comparison of a
  string with a number raises \<open>TypeError\<close>).
\<close>

record ValidationError =
  severity :: pystr
  row_index :: nat
  field :: pystr
  val :: pyval

definition missing_identifiers :: "nat \<Rightarrow> pyrecord \<Rightarrow> ValidationError list" where
  "missing_identifiers idx record =
     (if (\<not> truthy (rec_get record (asc ''tenant_name'')) \<and> \<not> truthy (rec_get record (asc ''tenant_id'')))
         \<and> \<not> truthy (rec_get record (asc ''unit_id''))
         \<and> \<not> truthy (rec_get record (asc ''contract_id''))
         \<and> \<not> truthy (rec_get record (asc ''asset_id''))
      then [\<lparr>severity = asc ''warning'', row_index = idx, field = asc ''tenant/unit identifiers'',
             val = VNone\<rparr>]
      else [])"

definition negative_rent :: "nat \<Rightarrow> pyrecord \<Rightarrow> py_error + ValidationError list" where
  "negative_rent idx record =
     (case rec_get record (asc ''monthly_rent_value'') of
        VNone \<Rightarrow> Inr []
      | VStr s \<Rightarrow> Inl TypeError
      | VNum x \<Rightarrow>
          Inr (if x < 0
               then [\<lparr>severity = asc ''warning'', row_index = idx, field = asc ''monthly_rent_value'',
                      val = VNum x\<rparr>]
               else []))"

definition magnitude_fields :: "pystr list" where
  "magnitude_fields = map asc
     [''monthly_rent_value'', ''annual_rent_value'', ''area_sqm_value'', ''area_sqft_value'']"

fun large_values :: "nat \<Rightarrow> pyrecord \<Rightarrow> pystr list \<Rightarrow> py_error + ValidationError list" where
  "large_values idx record [] = Inr []"
| "large_values idx record (f # fs) =
     (case (case rec_get record f of
              VNone \<Rightarrow> Inr []
            | VStr s \<Rightarrow> if s = [] then Inr [] else Inl TypeError
            | VNum x \<Rightarrow>
                Inr (if x \<noteq> 0 \<and> x > 10 ^ 9
                     then [\<lparr>severity = asc ''warning'', row_index = idx, field = f, val = VNum x\<rparr>]
                     else [])) of
        Inl e \<Rightarrow> Inl e
      | Inr errs \<Rightarrow>
          (case large_values idx record fs of Inl e \<Rightarrow> Inl e | Inr others \<Rightarrow> Inr (errs @ others)))"

text \<open>The body of the loop of \<open>validate\<close> for one record: the record after the body, and the
  issues found. The body reads the record with \<open>record.get\<close> only.\<close>

definition validate_record :: "nat \<Rightarrow> pyrecord \<Rightarrow> pyrecord \<times> (py_error + ValidationError list)" where
  "validate_record idx record =
     (record,
      case negative_rent idx record of
        Inl e \<Rightarrow> Inl e
      | Inr rent \<Rightarrow>
          (case large_values idx record magnitude_fields of
             Inl e \<Rightarrow> Inl e
           | Inr large \<Rightarrow> Inr (missing_identifiers idx record @ rent @ large)))"

fun validate_from ::
  "nat \<Rightarrow> pyrecord list \<Rightarrow> pyrecord list \<times> (py_error + ValidationError list)" where
  "validate_from idx [] = ([], Inr [])"
| "validate_from idx (record # rest) =
     (case validate_record idx record of
        (record', Inl e) \<Rightarrow> (record' # rest, Inl e)
      | (record', Inr errs) \<Rightarrow>
          (case validate_from (idx + 1) rest of
             (rest', Inl e) \<Rightarrow> (record' # rest', Inl e)
           | (rest', Inr others) \<Rightarrow> (record' # rest', Inr (errs @ others))))"

definition validate :: "pyrecord list \<Rightarrow> pyrecord list \<times> (py_error + ValidationError list)" where
  "validate records = validate_from 0 records"

section \<open>A small workbook for the examples\<close>

text \<open>
  A mapper with two synonyms, a sheet with a header row and one tenant, a sheet where no
  cell is a header, and a sheet where one cell is a header but no row has two.
\<close>

definition example_synonyms :: synonyms where
  "example_synonyms = [(asc ''unit_id'', [asc ''unit'']), (asc ''tenant_name'', [asc ''tenant''])]"

definition sheet_of :: "string \<Rightarrow> string \<Rightarrow> grid" where
  "sheet_of unit tenant =
     [[CText (asc ''Unit''), CText (asc ''Tenant'')], [CText (asc unit), CText (asc tenant)]]"

definition sheet_without_header_cells :: grid where
  "sheet_without_header_cells =
     [[CText (asc ''foo''), CText (asc ''bar'')], [CText (asc ''x''), CText (asc ''y'')]]"

definition sheet_with_one_header_cell :: grid where
  "sheet_with_one_header_cell =
     [[CText (asc ''Unit''), CText (asc ''bar'')], [CText (asc ''x''), CText (asc ''y'')]]"

definition example_workbook :: "grid \<Rightarrow> workbook" where
  "example_workbook second =
     [(asc ''One'', Inr (sheet_of ''A1'' ''Smith'')), (asc ''Two'', Inr second),
      (asc ''Three'', Inr (sheet_of ''B7'' ''Jones''))]"

definition source_sheets :: "ExtractionResult \<Rightarrow> pyval list" where
  "source_sheets res = map (\<lambda>r. rec_get r (asc ''_source_sheet'')) (data res)"

definition example_file :: pystr where
  "example_file = asc ''rentroll.xlsx''"

definition example_clock :: "pystr \<Rightarrow> pystr" where
  "example_clock sheet_name = asc ''2026-01-13T10:00:00''"

section \<open>Properties of the numeric-string resolution\<close>












lemma not_digit_sep [simp]: "\<not> is_digit 46" "\<not> is_digit 44" "\<not> is_digit 39"
  by (simp_all add: is_digit_def)





































section \<open>Properties of the cell parser\<close>

lemma original_text_parse_percentage: "original_text (parse_percentage t) = t"
  by (simp add: parse_percentage_def Let_def split: option.splits)

lemma original_text_parse_currency: "original_text (parse_currency t) = t"
  by (simp add: parse_currency_def Let_def split: option.splits prod.splits)

lemma original_text_parse_area: "original_text (parse_area t) = t"
  by (simp add: parse_area_def Let_def split: option.splits prod.splits)

lemma original_text_parse_with_unit: "original_text (parse_with_unit t u) = t"
  by (simp add: parse_with_unit_def Let_def)

lemma original_text_parse_text: "original_text (parse_text s) = py_strip s"
  by (simp add: parse_text_def Let_def original_text_parse_percentage
      original_text_parse_currency original_text_parse_area original_text_parse_with_unit
      split: option.splits)












section \<open>Properties of the identity resolution\<close>








section \<open>Properties of the row extraction\<close>

lemma extract_rows_stop:
  "is_summary_row (cell_text c0) \<Longrightarrow>
     extract_rows mh idx (pre @ (c0 # cs) # post) = extract_rows mh idx pre"
proof (induction pre arbitrary: idx)
  case Nil
  then show ?case by simp
next
  case (Cons row pre)
  then show ?case by (cases row) simp_all
qed

lemma extract_rows_all:
  "\<forall>row\<in>set pre. row \<noteq> [] \<and> \<not> is_summary_row (cell_text (hd row)) \<Longrightarrow>
     extract_rows mh idx pre =
       Inr (concat (map (\<lambda>(i, row). row_records mh i row) (zip [idx..<idx + length pre] pre)))"
proof (induction pre arbitrary: idx)
  case Nil
  then show ?case by simp
next
  case (Cons row pre)
  then obtain c0 cs where row: "row = c0 # cs" by (cases row) auto
  have u: "[idx..<idx + length (row # pre)] = idx # [Suc idx..<Suc idx + length pre]"
    by (subst upt_rec) simp
  have "extract_rows mh (Suc idx) pre =
       Inr (concat (map (\<lambda>(i, row). row_records mh i row) (zip [Suc idx..<Suc idx + length pre] pre)))"
    using Cons.prems by (intro Cons.IH) simp
  then show ?case
    using Cons.prems row unfolding u by simp
qed

section \<open>Properties of the validator and of the workbook reader\<close>

lemma fst_validate_from: "fst (validate_from idx records) = records"
proof (induction records arbitrary: idx)
  case Nil
  then show ?case by simp
next
  case (Cons r rest)
  have "fst (validate_from (idx + 1) rest) = rest" by (rule Cons.IH)
  then show ?case
    by (auto simp: validate_record_def split: sum.splits prod.splits)
qed

lemma process_sheets_acc:
  "process_sheets syn wb fn clock sheets (recs, ws, k) =
     (recs @ concat (map (\<lambda>n. case process_sheet syn wb fn clock n of Inl w \<Rightarrow> [] | Inr rs \<Rightarrow> rs) sheets),
      ws @ concat (map (\<lambda>n. case process_sheet syn wb fn clock n of Inl w \<Rightarrow> [w] | Inr rs \<Rightarrow> []) sheets),
      k + length (filter (\<lambda>n. case process_sheet syn wb fn clock n of Inl w \<Rightarrow> False | Inr rs \<Rightarrow> True) sheets))"
proof (induction sheets arbitrary: recs ws k)
  case Nil
  then show ?case by simp
next
  case (Cons n sheets)
  show ?case
    by (cases "process_sheet syn wb fn clock n") (simp_all add: Cons.IH)
qed

lemma process_sheet_Inl:
  assumes "process_sheet syn wb fn clock n = Inl w"
  shows "w = no_header_warning n \<or> (\<exists>e. w = error_warning n e)"
  using assms
  by (auto simp: process_sheet_def split: sum.splits option.splits prod.splits if_splits)

lemma warning_names_sheet:
  "py_startswith (no_header_warning n) (asc ''Sheet '' @ [39] @ n @ [39])"
  "py_startswith (error_warning n e) (asc ''Sheet '' @ [39] @ n @ [39])"
  by (simp_all add: py_startswith_def no_header_warning_def error_warning_def asc_def)

lemma length_resolve: "length (resolve_tenant_and_unit rs) = length rs"
  by (simp add: resolve_tenant_and_unit_def)

lemma read_excel_processed:
  assumes "sheets_to_process syn wb pa = Inr sheets" and "sheets \<noteq> []"
  shows "\<exists>res. read_excel syn (Inr wb) fn clock pa = Inr res
     \<and> data res = resolve_tenant_and_unit
         (concat (map (\<lambda>n. case process_sheet syn wb fn clock n of Inl w \<Rightarrow> [] | Inr rs \<Rightarrow> rs) sheets))
     \<and> warnings res =
         concat (map (\<lambda>n. case process_sheet syn wb fn clock n of Inl w \<Rightarrow> [w] | Inr rs \<Rightarrow> []) sheets)
     \<and> success res = (data res \<noteq> [])"
  using assms
  by (simp add: read_excel_def process_sheets_acc Let_def length_resolve)


lemma select_best_sheet_returns:
  "wb \<noteq> [] \<Longrightarrow> \<exists>b. select_best_sheet syn wb = Inr b"
  by (cases wb) (auto simp: select_best_sheet_def sheet_names_def split: list.splits option.splits)

lemma sheets_to_process_returns:
  "pa \<or> wb \<noteq> [] \<Longrightarrow> \<exists>sheets. sheets_to_process syn wb pa = Inr sheets"
  using select_best_sheet_returns[of wb syn]
  by (auto simp: sheets_to_process_def)

lemma read_excel_returns:
  assumes "sheets_to_process syn wb pa = Inr sheets"
  shows "\<exists>res. read_excel syn (Inr wb) fn clock pa = Inr res"
  using assms by (auto simp: read_excel_def Let_def split: prod.splits)

lemma read_excel_success:
  assumes "read_excel syn opened fn clock pa = Inr res"
  shows "success res \<longleftrightarrow> data res \<noteq> []"
proof (cases opened)
  case (Inl e)
  with assms show ?thesis by (auto simp: read_excel_def)
next
  case (Inr wb)
  show ?thesis
  proof (cases "sheets_to_process syn wb pa")
    case (Inl e)
    with Inr assms show ?thesis by (simp add: read_excel_def)
  next
    case sh: (Inr sheets)
    show ?thesis
    proof (cases "sheets = []")
      case True
      with Inr sh assms show ?thesis by (auto simp: read_excel_def)
    next
      case False
      from read_excel_processed[OF sh False, of fn clock] Inr assms show ?thesis by auto
    qed
  qed
qed

lemma process_sheet_read_error:
  "read_sheet wb n = Inl e \<Longrightarrow> process_sheet syn wb fn clock n = Inl (error_warning n e)"
  by (simp add: process_sheet_def)

lemma process_sheet_no_header:
  "read_sheet wb n = Inr df \<Longrightarrow> find_header_row syn df 30 = None \<Longrightarrow>
     process_sheet syn wb fn clock n = Inl (no_header_warning n)"
  by (simp add: process_sheet_def)

lemma read_excel_no_headers:
  assumes "sheets_to_process syn wb pa = Inr sheets"
    and "\<forall>n\<in>set sheets. \<exists>df. read_sheet wb n = Inr df \<and> find_header_row syn df 30 = None"
  shows "\<exists>r. read_excel syn (Inr wb) fn clock pa = Inr r \<and> \<not> success r \<and> data r = []
            \<and> (sheets \<noteq> [] \<longrightarrow> warnings r = map no_header_warning sheets)"
proof (cases "sheets = []")
  case True
  with assms(1) show ?thesis by (simp add: read_excel_def)
next
  case False
  have p: "\<forall>n\<in>set sheets. process_sheet syn wb fn clock n = Inl (no_header_warning n)"
    using assms(2) by (auto intro: process_sheet_no_header)
  have c1: "concat (map (\<lambda>n. case process_sheet syn wb fn clock n of Inl w \<Rightarrow> [] | Inr rs \<Rightarrow> rs) sheets) = []"
    using p by (induction sheets) auto
  have c2: "concat (map (\<lambda>n. case process_sheet syn wb fn clock n of Inl w \<Rightarrow> [w] | Inr rs \<Rightarrow> []) sheets)
              = map no_header_warning sheets"
    using p by (induction sheets) auto
  from read_excel_processed[OF assms(1) False, of fn clock] c1 c2 show ?thesis
    by (auto simp: resolve_tenant_and_unit_def)
qed

section \<open>Claims\<close>






text \<open>
  C3. The currency parse maps a symbol to its ISO code by the table \<open>CURRENCY_SYMBOLS\<close>;
  the claim names the zloty sign and \<open>kr\<close> among the symbols. The table holds both, but
  \<open>currency_symbol_pattern\<close> matches neither, so an amount in zloty or in \<open>kr\<close> goes through
  the pure-number parse and comes back with no unit.
\<close>

theorem parse_currency_symbols_missing:
  "parse (CText (asc ''100 z'' @ [322])) None =
     \<lparr>nwu_value = Some 100, nwu_unit = None, original_text = asc ''100 z'' @ [322]\<rparr>
   \<and> parse (CText (asc ''100 kr'')) None =
     \<lparr>nwu_value = Some 100, nwu_unit = None, original_text = asc ''100 kr''\<rparr>
   \<and> dict_get CURRENCY_SYMBOLS (asc ''z'' @ [322]) [] = asc ''PLN''
   \<and> dict_get CURRENCY_SYMBOLS (asc ''kr'') [] = asc ''SEK''"
  by code_simp

text \<open>
  C4. \<open>original_text\<close> of a parsed string. The claim says it is the source string untouched;
  \<open>parse\<close> strips leading and trailing white space first (\<open>original = str(value).strip()\<close>),
  so a padded cell comes back without its padding. What holds for every string: the
  \<open>original_text\<close> is the stripped source, whatever markers, operators and unit tokens the
  numeric extraction removes.
\<close>

theorem parse_original_text_stripped:
  "original_text (parse (CText s) context_hint) = py_strip s"
  by (simp add: parse_def original_text_parse_text)

theorem parse_original_text_counterexample:
  "original_text (parse (CText (asc '' 5 '')) None) \<noteq> asc '' 5 ''"
  by code_simp

text \<open>
  C5. \<open>HeaderMapper.map_header\<close> is claimed to look for an exact match over the whole table
  before any containment match. The loop tests both on each synonym in one pass over the
  table, so a synonym of an earlier field that the header contains wins over the exact
  synonym of a later field: with the default table the header \<open>Annual Rent\<close>, whose
  normalized form is the synonym \<open>annual rent\<close> of \<open>annual_rent\<close>, maps to \<open>monthly_rent\<close>
  (it contains the synonym \<open>rent\<close>).
\<close>

theorem map_header_annual_rent:
  "map_header DEFAULT_SYNONYMS (asc ''Annual Rent'') = Some (asc ''monthly_rent'')
   \<and> normalize_header (asc ''Annual Rent'') = normalize_header (asc ''annual rent'')
   \<and> map_option (\<lambda>syns. asc ''annual rent'' \<in> set syns)
        (map_of DEFAULT_SYNONYMS (asc ''annual_rent'')) = Some True"
  by code_simp



text \<open>
  C7. \<open>DataExtractor.extract_data\<close> stops at the first row after the header whose first cell
  holds a summary keyword. With the rows up to the header row \<open>hdr\<close>, the rows \<open>pre\<close> after
  it and a \<open>marker\<close> row: the marker row and all rows \<open>post\<close> after it contribute nothing,
  the result is that of the sheet cut before the marker; and when no row of \<open>pre\<close> is a
  summary row, the result is, row by row of \<open>pre\<close>, the record of the row with its 1-indexed
  source row, an empty row or a row without meaningful data adding nothing and not ending
  the scan.
\<close>

theorem extract_data_stops_at_summary_row:
  assumes "length hdr = Suc header_row"
    and "marker \<noteq> []" and "is_summary_row (cell_text (hd marker))"
  shows "extract_data syn (hdr @ pre @ marker # post) header_row raw_headers
           = extract_data syn (hdr @ pre) header_row raw_headers
       \<and> ((\<forall>row\<in>set pre. row \<noteq> [] \<and> \<not> is_summary_row (cell_text (hd row))) \<longrightarrow>
            extract_data syn (hdr @ pre @ marker # post) header_row raw_headers
              = Inr (concat (map (\<lambda>(i, row). row_records (map (map_header syn) raw_headers) i row)
                                 (zip [Suc header_row..<Suc header_row + length pre] pre))))"
proof -
  obtain c0 cs where m: "marker = c0 # cs" using assms(2) by (cases marker) auto
  have s: "is_summary_row (cell_text c0)" using assms(3) m by simp
  have d1: "drop (header_row + 1) (hdr @ pre @ marker # post) = pre @ (c0 # cs) # post"
    using assms(1) m by simp
  have d2: "drop (header_row + 1) (hdr @ pre) = pre"
    using assms(1) by simp
  have e: "extract_data syn (hdr @ pre @ marker # post) header_row raw_headers
           = extract_data syn (hdr @ pre) header_row raw_headers"
    unfolding extract_data_def Let_def d1 d2 using s by (rule extract_rows_stop)
  moreover have "(\<forall>row\<in>set pre. row \<noteq> [] \<and> \<not> is_summary_row (cell_text (hd row))) \<Longrightarrow>
      extract_data syn (hdr @ pre) header_row raw_headers
        = Inr (concat (map (\<lambda>(i, row). row_records (map (map_header syn) raw_headers) i row)
                           (zip [Suc header_row..<Suc header_row + length pre] pre)))"
    unfolding extract_data_def Let_def d2 by (simp add: extract_rows_all)
  ultimately show ?thesis by simp
qed

theorem extract_data_stops_at_summary_row_witness:
  "extract_data [(asc ''unit_id'', [asc ''unit'']), (asc ''tenant_name'', [asc ''tenant''])]
     [[CText (asc ''Unit''), CText (asc ''Tenant'')],
      [CText (asc ''A1''), CText (asc ''Smith'')],
      [CNull, CNull],
      [CText (asc ''A2''), CText (asc ''Miller'')],
      [CText (asc ''Gesamt''), CNull],
      [CText (asc ''A3''), CText (asc ''Jones'')]]
     0 [asc ''Unit'', asc ''Tenant'']
   = Inr [[(asc ''unit_id'', VStr (asc ''A1'')), (asc ''tenant_name'', VStr (asc ''Smith'')),
           (asc ''_source_row'', VNum 2)],
          [(asc ''unit_id'', VStr (asc ''A2'')), (asc ''tenant_name'', VStr (asc ''Miller'')),
           (asc ''_source_row'', VNum 4)]]"
proof -
  let ?syn = "[(asc ''unit_id'', [asc ''unit'']), (asc ''tenant_name'', [asc ''tenant''])]"
  let ?hdr = "[[CText (asc ''Unit''), CText (asc ''Tenant'')]]"
  let ?pre = "[[CText (asc ''A1''), CText (asc ''Smith'')], [CNull, CNull],
               [CText (asc ''A2''), CText (asc ''Miller'')]]"
  let ?marker = "[CText (asc ''Gesamt''), CNull]"
  let ?post = "[[CText (asc ''A3''), CText (asc ''Jones'')]]"
  have a: "length ?hdr = Suc 0" by simp
  have b: "?marker \<noteq> []" by simp
  have c: "is_summary_row (cell_text (hd ?marker))" by code_simp
  have d: "\<forall>row\<in>set ?pre. row \<noteq> [] \<and> \<not> is_summary_row (cell_text (hd row))"
    by code_simp
  have e: "concat (map (\<lambda>(i, row). row_records (map (map_header ?syn) [asc ''Unit'', asc ''Tenant'']) i row)
                       (zip [Suc 0..<Suc 0 + length ?pre] ?pre))
     = [[(asc ''unit_id'', VStr (asc ''A1'')), (asc ''tenant_name'', VStr (asc ''Smith'')),
           (asc ''_source_row'', VNum 2)],
          [(asc ''unit_id'', VStr (asc ''A2'')), (asc ''tenant_name'', VStr (asc ''Miller'')),
           (asc ''_source_row'', VNum 4)]]"
    by code_simp
  from extract_data_stops_at_summary_row[OF a b c, of ?syn ?pre ?post "[asc ''Unit'', asc ''Tenant'']",
      THEN conjunct2, THEN mp, OF d] e
  show ?thesis by simp
qed

text \<open>
  C8. Isolation of a failing sheet in \<open>RentRollExcelReader.read_excel\<close>, over the sheets
  chosen for processing (\<open>sheets_to_process\<close>): the returned records are the resolved records
  of the chosen sheets in order, a sheet that leaves a warning adding none; the returned
  warnings are, in order, one per such sheet. A sheet that cannot be read leaves the error
  warning, a sheet with no header row the header warning, and every warning of a sheet
  starts with \<open>Sheet\<close> and the quoted name of that sheet.

  The claim's example leaves the choice of sheets out: a sheet with no recognizable header
  cell at all is not chosen when other sheets have some, and then leaves no warning. The
  example holds for a second sheet that is chosen, for instance one with a single header
  cell.
\<close>

theorem read_excel_sheet_isolation:
  assumes "sheets_to_process syn wb pa = Inr sheets" and "sheets \<noteq> []"
  shows "(\<exists>res. read_excel syn (Inr wb) fn clock pa = Inr res
            \<and> data res = resolve_tenant_and_unit
                (concat (map (\<lambda>n. case process_sheet syn wb fn clock n of
                                      Inl w \<Rightarrow> [] | Inr rs \<Rightarrow> rs) sheets))
            \<and> warnings res =
                concat (map (\<lambda>n. case process_sheet syn wb fn clock n of
                                     Inl w \<Rightarrow> [w] | Inr rs \<Rightarrow> []) sheets))
       \<and> (\<forall>n e. read_sheet wb n = Inl e \<longrightarrow>
              process_sheet syn wb fn clock n = Inl (error_warning n e))
       \<and> (\<forall>n df. read_sheet wb n = Inr df \<and> find_header_row syn df 30 = None \<longrightarrow>
              process_sheet syn wb fn clock n = Inl (no_header_warning n))
       \<and> (\<forall>n w. process_sheet syn wb fn clock n = Inl w \<longrightarrow>
              py_startswith w (asc ''Sheet '' @ [39] @ n @ [39]))"
proof (intro conjI allI impI)
  show "\<exists>res. read_excel syn (Inr wb) fn clock pa = Inr res
            \<and> data res = resolve_tenant_and_unit
                (concat (map (\<lambda>n. case process_sheet syn wb fn clock n of
                                      Inl w \<Rightarrow> [] | Inr rs \<Rightarrow> rs) sheets))
            \<and> warnings res =
                concat (map (\<lambda>n. case process_sheet syn wb fn clock n of
                                     Inl w \<Rightarrow> [w] | Inr rs \<Rightarrow> []) sheets)"
    using read_excel_processed[OF assms, of fn clock] by blast
next
  fix n e assume "read_sheet wb n = Inl e"
  then show "process_sheet syn wb fn clock n = Inl (error_warning n e)"
    by (rule process_sheet_read_error)
next
  fix n df assume "read_sheet wb n = Inr df \<and> find_header_row syn df 30 = None"
  then show "process_sheet syn wb fn clock n = Inl (no_header_warning n)"
    by (simp add: process_sheet_no_header)
next
  fix n w assume "process_sheet syn wb fn clock n = Inl w"
  from process_sheet_Inl[OF this] show "py_startswith w (asc ''Sheet '' @ [39] @ n @ [39])"
    using warning_names_sheet by auto
qed

theorem read_excel_sheet_isolation_witness:
  "map_sum id warnings
     (read_excel example_synonyms (Inr (example_workbook sheet_with_one_header_cell))
        example_file example_clock True)
     = Inr [asc ''Sheet '' @ [39] @ asc ''Two'' @ [39] @ asc '': Could not detect header row'']
   \<and> map_sum id source_sheets
     (read_excel example_synonyms (Inr (example_workbook sheet_with_one_header_cell))
        example_file example_clock True)
     = Inr [VStr (asc ''One''), VStr (asc ''Three'')]
   \<and> map_sum id warnings
     (read_excel example_synonyms (Inr [(asc ''Two'', Inl (IOError (asc ''bad zip file'')))])
        example_file example_clock True)
     = Inr [asc ''Sheet '' @ [39] @ asc ''Two'' @ [39] @ asc '': Error - '' @ asc ''bad zip file'']
   \<and> py_startswith (error_warning (asc ''Two'') (IOError (asc ''bad zip file'')))
       (asc ''Sheet '' @ [39] @ asc ''Two'' @ [39])"
proof -
  let ?wb = "example_workbook sheet_with_one_header_cell"
  let ?fn = "example_file"
  let ?clock = "example_clock"
  have a: "sheets_to_process example_synonyms ?wb True = Inr [asc ''One'', asc ''Two'', asc ''Three'']"
    by code_simp
  have b: "[asc ''One'', asc ''Two'', asc ''Three''] \<noteq> []" by simp
  note T = read_excel_sheet_isolation[OF a b, of ?fn ?clock]
  from T obtain res where
    r: "read_excel example_synonyms (Inr ?wb) ?fn ?clock True = Inr res"
    and d: "data res = resolve_tenant_and_unit
                (concat (map (\<lambda>n. case process_sheet example_synonyms ?wb ?fn ?clock n of
                                      Inl w \<Rightarrow> [] | Inr rs \<Rightarrow> rs) [asc ''One'', asc ''Two'', asc ''Three'']))"
    and w: "warnings res =
                concat (map (\<lambda>n. case process_sheet example_synonyms ?wb ?fn ?clock n of
                                     Inl w \<Rightarrow> [w] | Inr rs \<Rightarrow> []) [asc ''One'', asc ''Two'', asc ''Three''])"
    by blast
  have h2: "read_sheet ?wb (asc ''Two'') = Inr sheet_with_one_header_cell
            \<and> find_header_row example_synonyms sheet_with_one_header_cell 30 = None"
    by code_simp
  have p2: "process_sheet example_synonyms ?wb ?fn ?clock (asc ''Two'') = Inl (no_header_warning (asc ''Two''))"
    using T h2 by blast
  have p1: "map (\<lambda>r. rec_get r (asc ''_source_sheet''))
              (resolve_tenant_and_unit (projr (process_sheet example_synonyms ?wb ?fn ?clock (asc ''One''))))
            = [VStr (asc ''One'')]
            \<and> isl (process_sheet example_synonyms ?wb ?fn ?clock (asc ''One'')) = False"
    by code_simp
  have p3: "map (\<lambda>r. rec_get r (asc ''_source_sheet''))
              (resolve_tenant_and_unit (projr (process_sheet example_synonyms ?wb ?fn ?clock (asc ''Three''))))
            = [VStr (asc ''Three'')]
            \<and> isl (process_sheet example_synonyms ?wb ?fn ?clock (asc ''Three'')) = False"
    by code_simp
  obtain r1 where q1: "process_sheet example_synonyms ?wb ?fn ?clock (asc ''One'') = Inr r1"
    using p1 by (cases "process_sheet example_synonyms ?wb ?fn ?clock (asc ''One'')") auto
  obtain r3 where q3: "process_sheet example_synonyms ?wb ?fn ?clock (asc ''Three'') = Inr r3"
    using p3 by (cases "process_sheet example_synonyms ?wb ?fn ?clock (asc ''Three'')") auto
  have w1: "warnings res = [no_header_warning (asc ''Two'')]"
    using w p2 q1 q3 by simp
  have s1: "source_sheets res = [VStr (asc ''One''), VStr (asc ''Three'')]"
    using d p1 p3 p2 q1 q3 by (simp add: source_sheets_def resolve_tenant_and_unit_def)
  let ?bad = "[(asc ''Two'', Inl (IOError (asc ''bad zip file'')))] :: workbook"
  have a': "sheets_to_process example_synonyms ?bad True = Inr [asc ''Two'']"
    by code_simp
  have b': "[asc ''Two''] \<noteq> []" by simp
  note T' = read_excel_sheet_isolation[OF a' b', of ?fn ?clock]
  from T' obtain res' where
    r': "read_excel example_synonyms (Inr ?bad) ?fn ?clock True = Inr res'"
    and w': "warnings res' =
                concat (map (\<lambda>n. case process_sheet example_synonyms ?bad ?fn ?clock n of
                                     Inl w \<Rightarrow> [w] | Inr rs \<Rightarrow> []) [asc ''Two''])"
    by blast
  have h': "read_sheet ?bad (asc ''Two'') = Inl (IOError (asc ''bad zip file''))"
    by code_simp
  have p': "process_sheet example_synonyms ?bad ?fn ?clock (asc ''Two'')
              = Inl (error_warning (asc ''Two'') (IOError (asc ''bad zip file'')))"
    using T' h' by blast
  have w2: "warnings res' = [error_warning (asc ''Two'') (IOError (asc ''bad zip file''))]"
    using w' p' by simp
  have n2: "py_startswith (error_warning (asc ''Two'') (IOError (asc ''bad zip file'')))
              (asc ''Sheet '' @ [39] @ asc ''Two'' @ [39])"
    using T' p' by blast
  show ?thesis
    using r w1 s1 r' w2 n2 by (simp add: no_header_warning_def error_warning_def)
qed

theorem read_excel_unchosen_sheet_counterexample:
  "find_header_row example_synonyms sheet_without_header_cells 30 = None
   \<and> map_sum id warnings
       (read_excel example_synonyms (Inr (example_workbook sheet_without_header_cells))
          example_file example_clock True)
     = Inr []
   \<and> map_sum id source_sheets
       (read_excel example_synonyms (Inr (example_workbook sheet_without_header_cells))
          example_file example_clock True)
     = Inr [VStr (asc ''One''), VStr (asc ''Three'')]"
  by code_simp

text \<open>
  C9. \<open>DataValidator.validate\<close> leaves every record as it is: the list of records after the
  call is the list before it, whether the call returns its issues or ends with an
  exception.
\<close>

theorem validate_leaves_records_unchanged: "fst (validate records) = records"
  by (simp add: validate_def fst_validate_from)

theorem validate_leaves_records_unchanged_witness:
  "fst (validate [[(asc ''tenant_name'', VStr (asc ''Smith'')), (asc ''monthly_rent_value'', VNum (- 100))]])
     = [[(asc ''tenant_name'', VStr (asc ''Smith'')), (asc ''monthly_rent_value'', VNum (- 100))]]"
  using validate_leaves_records_unchanged
    [of "[[(asc ''tenant_name'', VStr (asc ''Smith'')), (asc ''monthly_rent_value'', VNum (- 100))]]"]
  by simp

text \<open>
  C10. Whenever \<open>read_excel\<close> returns, \<open>success\<close> is true exactly when the returned records
  are not empty. It returns for every opened workbook when all sheets are processed, and
  for every opened workbook with at least one sheet otherwise. When no chosen sheet has a
  detectable header row, it returns \<open>success = False\<close> with no records, and the header
  warnings of the chosen sheets.
\<close>

theorem read_excel_success_iff_records:
  "(read_excel syn opened fn clock pa = Inr res \<longrightarrow> (success res \<longleftrightarrow> data res \<noteq> []))
   \<and> (opened = Inr wb \<and> (pa \<or> wb \<noteq> []) \<longrightarrow>
        (\<exists>r. read_excel syn opened fn clock pa = Inr r))
   \<and> (opened = Inr wb \<and> sheets_to_process syn wb pa = Inr sheets
        \<and> (\<forall>n\<in>set sheets. \<exists>df. read_sheet wb n = Inr df \<and> find_header_row syn df 30 = None) \<longrightarrow>
        (\<exists>r. read_excel syn opened fn clock pa = Inr r \<and> \<not> success r \<and> data r = []
              \<and> (sheets \<noteq> [] \<longrightarrow> warnings r = map no_header_warning sheets)))"
proof (intro conjI impI)
  assume "read_excel syn opened fn clock pa = Inr res"
  then show "success res \<longleftrightarrow> data res \<noteq> []" by (rule read_excel_success)
next
  assume h: "opened = Inr wb \<and> (pa \<or> wb \<noteq> [])"
  then obtain sheets' where "sheets_to_process syn wb pa = Inr sheets'"
    using sheets_to_process_returns[of pa wb syn] by blast
  from read_excel_returns[OF this, of fn clock] h
  show "\<exists>r. read_excel syn opened fn clock pa = Inr r" by simp
next
  assume h: "opened = Inr wb \<and> sheets_to_process syn wb pa = Inr sheets
        \<and> (\<forall>n\<in>set sheets. \<exists>df. read_sheet wb n = Inr df \<and> find_header_row syn df 30 = None)"
  then show "\<exists>r. read_excel syn opened fn clock pa = Inr r \<and> \<not> success r \<and> data r = []
              \<and> (sheets \<noteq> [] \<longrightarrow> warnings r = map no_header_warning sheets)"
    using read_excel_no_headers[of syn wb pa sheets fn clock] by simp
qed

theorem read_excel_success_iff_records_witness:
  "map_sum id success
     (read_excel example_synonyms (Inr [(asc ''Two'', Inr sheet_with_one_header_cell)])
        example_file example_clock True) = Inr False
   \<and> map_sum id warnings
     (read_excel example_synonyms (Inr [(asc ''Two'', Inr sheet_with_one_header_cell)])
        example_file example_clock True)
       = Inr [no_header_warning (asc ''Two'')]
   \<and> map_sum id success
     (read_excel example_synonyms (Inr (example_workbook sheet_with_one_header_cell))
        example_file example_clock True) = Inr True"
proof -
  let ?wb = "[(asc ''Two'', Inr sheet_with_one_header_cell)] :: workbook"
  note T = read_excel_success_iff_records
  have a: "Inr ?wb = (Inr ?wb :: py_error + workbook)
        \<and> sheets_to_process example_synonyms ?wb True = Inr [asc ''Two'']
        \<and> (\<forall>n\<in>set [asc ''Two'']. \<exists>df. read_sheet ?wb n = Inr df
               \<and> find_header_row example_synonyms df 30 = None)"
  proof -
    have "sheets_to_process example_synonyms ?wb True = Inr [asc ''Two'']" by code_simp
    moreover have "read_sheet ?wb (asc ''Two'') = Inr sheet_with_one_header_cell
                   \<and> find_header_row example_synonyms sheet_with_one_header_cell 30 = None"
      by code_simp
    ultimately show ?thesis by simp
  qed
  from T[THEN conjunct2, THEN conjunct2, THEN mp, OF a, of example_file example_clock]
  obtain r where r: "read_excel example_synonyms (Inr ?wb) example_file example_clock True = Inr r"
    "\<not> success r" "warnings r = map no_header_warning [asc ''Two'']"
    by auto
  let ?wb3 = "example_workbook sheet_with_one_header_cell"
  have b: "Inr ?wb3 = (Inr ?wb3 :: py_error + workbook) \<and> (True \<or> ?wb3 \<noteq> [])" by simp
  from T[THEN conjunct2, THEN conjunct1, THEN mp, OF b, of example_synonyms example_file example_clock]
  obtain r3 where r3: "read_excel example_synonyms (Inr ?wb3) example_file example_clock True = Inr r3"
    by auto
  have "map_sum id source_sheets (read_excel example_synonyms (Inr ?wb3) example_file example_clock True)
          = Inr [VStr (asc ''One''), VStr (asc ''Three'')]"
    by code_simp
  then have "data r3 \<noteq> []" using r3 by (auto simp: source_sheets_def)
  moreover from T[THEN conjunct1, THEN mp, OF r3] have "success r3 \<longleftrightarrow> data r3 \<noteq> []" .
  ultimately show ?thesis using r r3 by simp
qed


end
